theory Spec2Isabelle
  imports Main
begin

section \<open>Data model (types.ts)\<close>

text \<open>
  The enumerations of \<^verbatim>\<open>types.ts\<close>. Their string values play no part in the
  request assembly, which only compares and copies them.
\<close>

datatype VeoModel = VEO_FAST | VEO

datatype AspectRatio = LANDSCAPE | PORTRAIT

datatype Resolution = P720 | P1080

datatype GenerationMode = TEXT_TO_VIDEO | FRAMES_TO_VIDEO | REFERENCES_TO_VIDEO | EXTEND_VIDEO

text \<open>
  A browser \<^verbatim>\<open>File\<close>; the service reads only its \<^verbatim>\<open>type\<close> (the MIME type).
\<close>

record File =
  file_type :: string

record ImageFile =
  "file" :: File
  base64 :: string

text \<open>\<^verbatim>\<open>VideoFile\<close> has the same two fields as \<^verbatim>\<open>ImageFile\<close>.\<close>

type_synonym VideoFile = ImageFile

text \<open>
  The provider's \<^verbatim>\<open>Video\<close> handle. Its \<^verbatim>\<open>uri\<close> is optional in the SDK.
\<close>

record Video =
  uri :: "string option"

text \<open>
  \<^verbatim>\<open>GenerateVideoParams\<close>. A field declared with \<^verbatim>\<open>?\<close> or \<^verbatim>\<open>| null\<close> is an
  option: \<^verbatim>\<open>undefined\<close> and \<^verbatim>\<open>null\<close> are both \<open>None\<close>, and both are falsy.
\<close>

record GenerateVideoParams =
  prompt :: string
  model :: VeoModel
  aspectRatio :: AspectRatio
  resolution :: Resolution
  mode :: GenerationMode
  startFrame :: "ImageFile option"
  endFrame :: "ImageFile option"
  referenceImages :: "ImageFile list option"
  logoImage :: "ImageFile option"
  styleImage :: "ImageFile option"
  inputVideo :: "VideoFile option"
  inputVideoObject :: "Video option"
  isLooping :: "bool option"

section \<open>The outgoing provider payload\<close>

text \<open>
  The objects \<^verbatim>\<open>generateVideo\<close> builds field by field. A key that the code
  assigns only under a condition is an option; \<open>None\<close> is "the key is absent".
  Field names follow the access path of the source
  (\<^verbatim>\<open>generateVideoPayload.config.lastFrame\<close> is \<open>config_lastFrame\<close>).
\<close>

record Image =
  imageBytes :: string
  mimeType :: string

datatype VideoGenerationReferenceType = ASSET | STYLE

record VideoGenerationReferenceImage =
  image :: Image
  referenceType :: VideoGenerationReferenceType

record GenerateVideosConfig =
  numberOfVideos :: nat
  config_resolution :: Resolution
  config_aspectRatio :: "AspectRatio option"
  config_referenceImages :: "VideoGenerationReferenceImage list option"
  config_lastFrame :: "Image option"

record GenerateVideoPayload =
  payload_model :: VeoModel
  payload_config :: GenerateVideosConfig
  payload_prompt :: "string option"
  payload_image :: "Image option"
  payload_video :: "Video option"

section \<open>Errors\<close>

text \<open>
  \<open>Error msg\<close> is \<^verbatim>\<open>throw new Error(msg)\<close> of the service itself. \<open>TypeError\<close> is
  what reading a property of \<^verbatim>\<open>undefined\<close> throws, and \<open>URIError\<close> what
  \<^verbatim>\<open>decodeURIComponent\<close> throws on a malformed escape. \<open>ProviderError\<close> is what
  the SDK throws or rejects with, and what \<^verbatim>\<open>fetch\<close> rejects with (configuration,
  transport, authentication or server failure); the service has no \<^verbatim>\<open>catch\<close>, so
  each of them reaches the caller unchanged.
\<close>

datatype error = Error string | TypeError | URIError | ProviderError string

section \<open>Request assembly (generateVideo, lines 81 to 152)\<close>

definition toImage :: "ImageFile \<Rightarrow> Image" where
  "toImage img = \<lparr>imageBytes = base64 img, mimeType = file_type (file img)\<rparr>"

definition toReference :: "ImageFile \<Rightarrow> VideoGenerationReferenceImage" where
  "toReference img = \<lparr>image = toImage img, referenceType = ASSET\<rparr>"

text \<open>
  The loop \<^verbatim>\<open>for (const img of params.referenceImages)\<close>: an image is pushed
  only while the list built so far has fewer than three entries.
\<close>

fun pushReferences ::
  "VideoGenerationReferenceImage list \<Rightarrow> ImageFile list \<Rightarrow> VideoGenerationReferenceImage list" where
  "pushReferences acc [] = acc"
| "pushReferences acc (img # imgs) =
     pushReferences (if length acc < 3 then acc @ [toReference img] else acc) imgs"

text \<open>Lines 99 to 123: the logo first (when there is one), then the loop.\<close>

definition referenceImagesPayload :: "GenerateVideoParams \<Rightarrow> VideoGenerationReferenceImage list" where
  "referenceImagesPayload params =
     (let afterLogo = (case logoImage params of
                         Some logo \<Rightarrow> [toReference logo]
                       | None \<Rightarrow> [])
      in case referenceImages params of
           Some imgs \<Rightarrow> pushReferences afterLogo imgs
         | None \<Rightarrow> afterLogo)"

text \<open>
  Lines 81 to 152, up to the call of the provider. The only \<^verbatim>\<open>throw\<close> is the
  one of the extend branch. A non-empty string is truthy in JavaScript, the empty
  string is falsy; \<^verbatim>\<open>params.isLooping\<close> is truthy only when it is \<^verbatim>\<open>true\<close>.
\<close>

definition generateVideoPayload :: "GenerateVideoParams \<Rightarrow> error + GenerateVideoPayload" where
  "generateVideoPayload params =
     (let config = \<lparr>numberOfVideos = 1,
                     config_resolution = resolution params,
                     config_aspectRatio =
                       (if mode params \<noteq> EXTEND_VIDEO then Some (aspectRatio params) else None),
                     config_referenceImages = None,
                     config_lastFrame = None\<rparr>;
          payload0 = \<lparr>payload_model = model params,
                       payload_config = config,
                       payload_prompt = None,
                       payload_image = None,
                       payload_video = None\<rparr>;
          payload1 = (if prompt params \<noteq> [] then payload0\<lparr>payload_prompt := Some (prompt params)\<rparr>
                      else payload0);
          refs = referenceImagesPayload params;
          payload2 = (if length refs > 0
                      then payload1\<lparr>payload_config :=
                             (payload_config payload1)\<lparr>config_referenceImages := Some refs\<rparr>\<rparr>
                      else payload1)
      in if mode params = FRAMES_TO_VIDEO then
           (let payload3 = (case startFrame params of
                              Some sf \<Rightarrow> payload2\<lparr>payload_image := Some (toImage sf)\<rparr>
                            | None \<Rightarrow> payload2);
                finalEndFrame = (if isLooping params = Some True then startFrame params
                                 else endFrame params)
            in case finalEndFrame of
                 Some ef \<Rightarrow> Inr (payload3\<lparr>payload_config :=
                              (payload_config payload3)\<lparr>config_lastFrame := Some (toImage ef)\<rparr>\<rparr>)
               | None \<Rightarrow> Inr payload3)
         else if mode params = EXTEND_VIDEO then
           (case inputVideoObject params of
              Some v \<Rightarrow> Inr (payload2\<lparr>payload_video := Some v\<rparr>)
            | None \<Rightarrow> Inl (Error ''An input video object is required to extend a video.''))
         else Inr payload2)"

section \<open>The provider, the browser and the calls that reach them\<close>

text \<open>
  What the provider answers: a long-running operation, polled until its flag
  \<^verbatim>\<open>done\<close> is set (an absent flag is falsy, hence \<open>False\<close>), then read for its
  \<^verbatim>\<open>response.generatedVideos\<close>. The \<^verbatim>\<open>video\<close> of a produced entry is
  optional in the SDK.
\<close>

record GeneratedVideo =
  video :: "Video option"

record GenerateVideosResponse =
  generatedVideos :: "GeneratedVideo list option"

record GenerateVideosOperation =
  operation_name :: string
  operation_done :: bool
  operation_response :: "GenerateVideosResponse option"

type_synonym Blob = string

text \<open>
  The \<^verbatim>\<open>Response\<close> of \<^verbatim>\<open>fetch\<close>: \<open>blob\<close> is the outcome of \<^verbatim>\<open>await res.blob()\<close>,
  which reads the body of the same exchange and may reject.
\<close>

record Response =
  ok :: bool
  status :: nat
  blob :: "error + Blob"

record ChatSession =
  chat_model :: string
  chat_systemInstruction :: string

record GenerateContentResponse =
  response_text :: "string option"

record Part =
  part_text :: string

record Content =
  role :: string
  parts :: "Part list"

text \<open>The calls that leave the browser, in the order they are made.\<close>

datatype call =
    GenerateVideos GenerateVideoPayload
  | GetVideosOperation GenerateVideosOperation
  | Fetch string
  | SendMessage ChatSession string

text \<open>
  Everything outside the service. \<open>API_KEY\<close> is \<^verbatim>\<open>process.env.API_KEY\<close>, \<open>None\<close>
  when it is unset. \<open>newGoogleGenAI\<close> is the constructor of the SDK client applied
  to that key: \<open>Some e\<close> where it throws \<open>e\<close> (the browser build does when the key
  is unset), \<open>None\<close> where the client is built; the client's methods are the remote
  calls below. A remote call answers from the calls made so far (so the same
  operation may be pending at one poll and done at the next) and either rejects
  (\<open>Inl\<close>) or resolves (\<open>Inr\<close>). \<open>decodeURIComponent\<close> is \<open>None\<close> where the builtin
  throws; \<open>createObjectURL\<close> is local to the browser.
\<close>

record runtime =
  API_KEY :: "string option"
  newGoogleGenAI :: "string option \<Rightarrow> error option"
  decodeURIComponent :: "string \<Rightarrow> string option"
  createObjectURL :: "Blob \<Rightarrow> string"
  generateVideos :: "call list \<Rightarrow> GenerateVideoPayload \<Rightarrow> error + GenerateVideosOperation"
  getVideosOperation :: "call list \<Rightarrow> GenerateVideosOperation \<Rightarrow> error + GenerateVideosOperation"
  fetch :: "call list \<Rightarrow> string \<Rightarrow> error + Response"
  sendMessage :: "call list \<Rightarrow> ChatSession \<Rightarrow> string \<Rightarrow> error + GenerateContentResponse"

section \<open>Client, submission, polling and retrieval (generateVideo, lines 79 and 154 to 178)\<close>

text \<open>
  The text of a string that may be \<^verbatim>\<open>undefined\<close>, as a template literal and
  \<^verbatim>\<open>decodeURIComponent\<close> coerce it.
\<close>

definition stringOf :: "string option \<Rightarrow> string" where
  "stringOf s = (case s of None \<Rightarrow> ''undefined'' | Some chars \<Rightarrow> chars)"

text \<open>
  Lines 156 to 159. The loop has no attempt limit, so it is a partial function:
  \<open>None\<close> is "never returns". The ten seconds between two polls are not modelled.
\<close>

partial_function (option) pollOperation ::
  "runtime \<Rightarrow> call list \<Rightarrow> GenerateVideosOperation
     \<Rightarrow> ((error + GenerateVideosOperation) \<times> call list) option" where
  "pollOperation rt calls operation =
     (if operation_done operation then Some (Inr operation, calls)
      else (case getVideosOperation rt calls operation of
              Inl e \<Rightarrow> Some (Inl e, calls @ [GetVideosOperation operation])
            | Inr operation' \<Rightarrow>
                pollOperation rt (calls @ [GetVideosOperation operation]) operation'))"

declare pollOperation.simps [code]

text \<open>The decimal text of a status code, as the template literal prints it.\<close>

fun toString :: "nat \<Rightarrow> string" where
  "toString n =
     (if n < 10 then [char_of (48 + n)]
      else toString (n div 10) @ [char_of (48 + n mod 10)])"

declare toString.simps [simp del]

record GenerateVideoResult =
  objectUrl :: string
  result_blob :: Blob
  result_uri :: string
  result_video :: Video

text \<open>
  Lines 161 to 178: what happens to the operation the loop ended with. Reading
  \<^verbatim>\<open>videoObject.uri\<close> of an entry without a video throws; an absent
  \<^verbatim>\<open>uri\<close> is decoded and fetched as the text \<^verbatim>\<open>undefined\<close>.
\<close>

definition retrieveVideo ::
  "runtime \<Rightarrow> call list \<Rightarrow> GenerateVideosOperation \<Rightarrow> (error + GenerateVideoResult) \<times> call list" where
  "retrieveVideo rt calls operation =
     (case operation_response operation of
        None \<Rightarrow> (Inl (Error ''No videos generated.''), calls)
      | Some resp \<Rightarrow>
          (case generatedVideos resp of
             None \<Rightarrow> (Inl (Error ''No videos generated.''), calls)
           | Some [] \<Rightarrow> (Inl (Error ''No videos generated.''), calls)
           | Some (firstVideo # others) \<Rightarrow>
               (case video firstVideo of
                  None \<Rightarrow> (Inl TypeError, calls)
                | Some videoObject \<Rightarrow>
                    (case decodeURIComponent rt (stringOf (uri videoObject)) of
                       None \<Rightarrow> (Inl URIError, calls)
                     | Some url \<Rightarrow>
                         (let request = url @ ''&key='' @ stringOf (API_KEY rt);
                              calls' = calls @ [Fetch request]
                          in case fetch rt calls request of
                               Inl e \<Rightarrow> (Inl e, calls')
                             | Inr res \<Rightarrow>
                                 if \<not> ok res
                                 then (Inl (Error (''Failed to fetch video: ''
                                                   @ toString (status res))),
                                       calls')
                                 else (case blob res of
                                         Inl e \<Rightarrow> (Inl e, calls')
                                       | Inr videoBlob \<Rightarrow>
                                           (Inr \<lparr>objectUrl = createObjectURL rt videoBlob,
                                                 result_blob = videoBlob,
                                                 result_uri = url,
                                                 result_video = videoObject\<rparr>,
                                            calls')))))))"

text \<open>
  \<^verbatim>\<open>generateVideo\<close>: the result (or the error thrown) and the calls made, or
  \<open>None\<close> when the polling never ends. Line 79 builds the client before anything
  else is looked at.
\<close>

definition generateVideo ::
  "runtime \<Rightarrow> call list \<Rightarrow> GenerateVideoParams
     \<Rightarrow> ((error + GenerateVideoResult) \<times> call list) option" where
  "generateVideo rt calls params =
     (case newGoogleGenAI rt (API_KEY rt) of
        Some e \<Rightarrow> Some (Inl e, calls)
      | None \<Rightarrow>
          (case generateVideoPayload params of
             Inl e \<Rightarrow> Some (Inl e, calls)
           | Inr payload \<Rightarrow>
               (let calls' = calls @ [GenerateVideos payload]
                in case generateVideos rt calls payload of
                     Inl e \<Rightarrow> Some (Inl e, calls')
                   | Inr operation \<Rightarrow>
                       (case pollOperation rt calls' operation of
                          None \<Rightarrow> None
                        | Some (Inl e, calls'') \<Rightarrow> Some (Inl e, calls'')
                        | Some (Inr operation', calls'') \<Rightarrow>
                            Some (retrieveVideo rt calls'' operation')))))"

section \<open>The catalogue assistant (askCatalogAssistant, lines 13 to 74)\<close>

text \<open>
  The two string constants of the source, one code unit per character; a code unit
  outside printable ASCII is written by its number.
\<close>

definition CATALOG_DATA :: string where
  "CATALOG_DATA = concat
      [[CHR 0x0A],
       ''ANT'' @ [CHR 0xDC] @ '' K'' @ [CHR 0xDC] @ ''YEN AGRO - CAT'' @ [CHR 0xC1] @ ''LOGO COMERCIAL DIC 2025 - ENE 2026:'' @ [CHR 0x0A],
       [CHR 0x0A],
       ''MISI'' @ [CHR 0xD3] @ ''N: '' @ [CHR 0x22] @ ''Guardi'' @ [CHR 0xE1] @ ''n de los Valles'' @ [CHR 0x22] @ ''. Primera milla limpia, trazable y no-GMO en Arica, Chile.'' @ [CHR 0x0A],
       [CHR 0x0A],
       ''PRODUCTOS Y DISPONIBILIDAD:'' @ [CHR 0x0A],
       ''1. Tomates Beef (Suministro Asegurado):'' @ [CHR 0x0A],
       ''   - ANTUMAY: R'' @ [CHR 0xFA] @ ''stico, hermoso formato, homog'' @ [CHR 0xE9] @ ''neo. (700 - 1000 toneladas/mes).'' @ [CHR 0x0A],
       ''   - ALAMINA: Calidad postcosecha incomparable. Ideal invierno/primor. (100 - 300 toneladas/mes).'' @ [CHR 0x0A],
       ''   - ATTIYA: Calibre grande, excelente cuaja en fr'' @ [CHR 0xED] @ ''o y baja luz. (100 - 300 toneladas/mes).'' @ [CHR 0x0A],
       [CHR 0x0A],
       ''2. Tomates Cherry (Suministro Asegurado):'' @ [CHR 0x0A],
       ''   - ROMANITA: Midi Plum, sabor y textura '' @ [CHR 0xFA] @ ''nicos. 7.5'' @ [CHR 0xB0] @ '' Brix. (30 - 100 toneladas/mes).'' @ [CHR 0x0A],
       ''   - NANCY: Planta vigorosa, color rojo intenso. 8.5'' @ [CHR 0xB0] @ '' Brix. (30 - 100 toneladas/mes).'' @ [CHR 0x0A],
       ''   - ORNELA: Grape indeterminado, maduraci'' @ [CHR 0xF3] @ ''n temprana. 7-8.5'' @ [CHR 0xB0] @ '' Brix. (30 - 100 toneladas/mes).'' @ [CHR 0x0A],
       [CHR 0x0A],
       ''3. Pimientos de Alta Calidad:'' @ [CHR 0x0A],
       ''   - Achille (Verde: Vit C, K, '' @ [CHR 0xE1] @ ''cido f'' @ [CHR 0xF3] @ ''lico).'' @ [CHR 0x0A],
       ''   - Coraza (Rojo: paredes gruesas, vibrante).'' @ [CHR 0x0A],
       ''   - Sven & Prosperity (Amarillo/Naranja: sabor dulce).'' @ [CHR 0x0A],
       ''   - Disponibilidad total pimientos: 20 a 30 toneladas/mes.'' @ [CHR 0x0A],
       [CHR 0x0A],
       ''4. Aj'' @ [CHR 0xED] @ ''es (Inferno, Fakur y otros):'' @ [CHR 0x0A],
       ''   - Aj'' @ [CHR 0xED] @ '' H'' @ [CHR 0xED] @ ''brido H'' @ [CHR 0xFA] @ ''ngaro: Ciclo 85-95 d'' @ [CHR 0xED] @ ''as, 22-25 cm, alta pungencia.'' @ [CHR 0x0A],
       ''   - Aj'' @ [CHR 0xED] @ '' Hot Banana: Estructura grande, paredes gruesas, larga vida de anaquel.'' @ [CHR 0x0A],
       ''   - Disponibilidad total aj'' @ [CHR 0xED] @ ''es: 20 a 30 toneladas/mes.'' @ [CHR 0x0A],
       [CHR 0x0A],
       ''5. Cebolla Roja y Albahaca:'' @ [CHR 0x0A],
       ''   - Cebolla Morada Rasta: Sabores '' @ [CHR 0xFA] @ ''nicos, textura crujiente, aroma intenso.'' @ [CHR 0x0A],
       ''   - Albahaca Italiana: Hojas anchas, fragantes, ideal gourmet.'' @ [CHR 0x0A],
       ''   - Disponibilidad conjunta: 40 a 80 toneladas/mes.'' @ [CHR 0x0A],
       [CHR 0x0A],
       ''6. Zapallitos y Pepinos:'' @ [CHR 0x0A],
       ''   - Zapallitos (Terminator, Romeral, Meteoro): Cil'' @ [CHR 0xED] @ ''ndricos, Vit A, C, K.'' @ [CHR 0x0A],
       ''   - Zapallito Bola 8: Gourmet, ideal para rellenos.'' @ [CHR 0x0A],
       ''   - Pepino Ensalada (Fuseta, Javan, Cumlaude): Refrescante, Vit K y C.'' @ [CHR 0x0A],
       ''   - Disponibilidad cada grupo: 20 a 30 toneladas/mes.'' @ [CHR 0x0A],
       [CHR 0x0A],
       ''ESTRUCTURA CORPORATIVA (Holding Ant'' @ [CHR 0xFC] @ '' K'' @ [CHR 0xFC] @ ''yen SpA):'' @ [CHR 0x0A],
       ''Operador Agrofinanciero Regenerativo (OAR) con 20% margen neto objetivo 2026. Control de riesgo mediante matriz de 5 seguros.'' @ [CHR 0x0A],
       [CHR 0x0A],
       ''CONTACTO:'' @ [CHR 0x0A],
       ''Chile: Paolo Minguzzi (+56 9 6848 8698, p.minguzzi@agroantukuyen.com).'' @ [CHR 0x0A],
       ''Argentina: Anuar Peche (+54 9 351 408 6291, Representaci'' @ [CHR 0xF3] @ ''n T'' @ [CHR 0xE9] @ ''cnica).'' @ [CHR 0x0A]]"

definition SYSTEM_INSTRUCTION_HEAD :: string where
  "SYSTEM_INSTRUCTION_HEAD = concat
      [''Eres el Asistente Estrat'' @ [CHR 0xE9] @ ''gico y Operativo de Ant'' @ [CHR 0xFC] @ '' K'' @ [CHR 0xFC] @ ''yen Agro. Tu base de conocimiento es el Cat'' @ [CHR 0xE1] @ ''logo DIC 2025 - ENE 2026. '' @ [CHR 0x0A],
       ''      Proporciona datos exactos de disponibilidad (toneladas/mes) y grados Brix cuando se te pregunte. '' @ [CHR 0x0A],
       ''      Mant'' @ [CHR 0xE9] @ ''n el tono de '' @ [CHR 0x22] @ ''Guardi'' @ [CHR 0xE1] @ ''n de los Valles'' @ [CHR 0x22] @ ''. Explica los beneficios nutricionales (Vitaminas C, K, antocianinas) y el modelo OAR (Operador Agrofinanciero Regenerativo).'' @ [CHR 0x0A],
       ''      Si preguntan por contacto, menciona a Paolo Minguzzi para Chile y Anuar Peche para Argentina.'' @ [CHR 0x0A],
       ''      Informaci'' @ [CHR 0xF3] @ ''n del cat'' @ [CHR 0xE1] @ ''logo: '']"

definition chatSession :: ChatSession where
  "chatSession =
     \<lparr>chat_model = ''gemini-3-flash-preview'',
      chat_systemInstruction = SYSTEM_INSTRUCTION_HEAD @ CATALOG_DATA\<rparr>"

text \<open>
  \<^verbatim>\<open>askCatalogAssistant\<close>: the client (line 60), a fresh session, one message, and
  the reply's \<^verbatim>\<open>text\<close> as it is (\<open>None\<close> is \<^verbatim>\<open>undefined\<close>). The parameter
  \<open>history\<close> is the source's second parameter.
\<close>

definition askCatalogAssistant ::
  "runtime \<Rightarrow> call list \<Rightarrow> string \<Rightarrow> Content list \<Rightarrow> (error + string option) \<times> call list" where
  "askCatalogAssistant rt calls userPrompt history =
     (case newGoogleGenAI rt (API_KEY rt) of
        Some e \<Rightarrow> (Inl e, calls)
      | None \<Rightarrow>
          (let chat = chatSession;
               calls' = calls @ [SendMessage chat userPrompt]
           in case sendMessage rt calls chat userPrompt of
                Inl e \<Rightarrow> (Inl e, calls')
              | Inr response \<Rightarrow> (Inr (response_text response), calls')))"

section \<open>Vocabulary of the properties\<close>

text \<open>
  Two notions that the properties speak about and the source does not name: the images
  a request offers as references, logo first, and the videos an operation has produced
  (none when the response or its list is absent).
\<close>

definition candidateImages :: "GenerateVideoParams \<Rightarrow> ImageFile list" where
  "candidateImages params =
     (case logoImage params of Some logo \<Rightarrow> [logo] | None \<Rightarrow> []) @
     (case referenceImages params of Some imgs \<Rightarrow> imgs | None \<Rightarrow> [])"

definition producedVideos :: "GenerateVideosOperation \<Rightarrow> GeneratedVideo list" where
  "producedVideos operation =
     (case operation_response operation of
        None \<Rightarrow> []
      | Some resp \<Rightarrow> (case generatedVideos resp of None \<Rightarrow> [] | Some videos \<Rightarrow> videos))"

section \<open>Example requests and runtimes\<close>

text \<open>
  Concrete inputs at which the theorems below are instantiated: the request of the
  scenario "sunrise over a valley", and a runtime whose client is built exactly when
  the key is set, whose \<^verbatim>\<open>decodeURIComponent\<close> throws on a lone percent sign (as
  the builtin does) and returns the other locators used here as they are, and whose
  provider reports the operation pending at the first poll and done at the second.
\<close>

definition exampleImage :: "string \<Rightarrow> ImageFile" where
  "exampleImage bytes = \<lparr>file = \<lparr>file_type = ''image/png''\<rparr>, base64 = bytes\<rparr>"

definition exampleParams :: GenerateVideoParams where
  "exampleParams =
     \<lparr>prompt = ''sunrise over a valley'',
      model = VEO_FAST,
      aspectRatio = LANDSCAPE,
      resolution = P720,
      mode = TEXT_TO_VIDEO,
      startFrame = None,
      endFrame = None,
      referenceImages = Some [],
      logoImage = None,
      styleImage = None,
      inputVideo = None,
      inputVideoObject = None,
      isLooping = Some False\<rparr>"

definition exampleOperation :: "bool \<Rightarrow> GenerateVideosResponse option \<Rightarrow> GenerateVideosOperation" where
  "exampleOperation finished resp =
     \<lparr>operation_name = ''operations/1'', operation_done = finished, operation_response = resp\<rparr>"

definition exampleRuntime ::
  "GenerateVideosResponse option \<Rightarrow> Response \<Rightarrow> error + GenerateContentResponse \<Rightarrow> runtime" where
  "exampleRuntime resp res reply =
     \<lparr>API_KEY = Some ''secret'',
      newGoogleGenAI =
        (\<lambda>key. case key of
                  None \<Rightarrow> Some (ProviderError ''An API Key must be set when running in a browser'')
                | Some k \<Rightarrow> None),
      decodeURIComponent = (\<lambda>s. if s = ''%'' then None else Some s),
      createObjectURL = (\<lambda>b. ''blob:'' @ b),
      generateVideos = (\<lambda>calls payload. Inr (exampleOperation False None)),
      getVideosOperation =
        (\<lambda>calls operation.
           if length calls < 2 then Inr operation else Inr (exampleOperation True resp)),
      fetch = (\<lambda>calls url. Inr res),
      sendMessage = (\<lambda>calls chat message. reply)\<rparr>"

definition exampleVideos :: "GenerateVideosResponse option" where
  "exampleVideos =
     Some \<lparr>generatedVideos =
             Some [\<lparr>video = Some \<lparr>uri = Some ''https://videos.example/v1?alt=media''\<rparr>\<rparr>]\<rparr>"

definition exampleProduced :: "Video option \<Rightarrow> GenerateVideosResponse option" where
  "exampleProduced v = Some \<lparr>generatedVideos = Some [\<lparr>video = v\<rparr>]\<rparr>"

definition exampleResponse :: "nat \<Rightarrow> Response" where
  "exampleResponse code =
     \<lparr>ok = (200 \<le> code \<and> code \<le> 299), status = code, blob = Inr ''bytes''\<rparr>"

definition examplePayload :: GenerateVideoPayload where
  "examplePayload =
     \<lparr>payload_model = VEO_FAST,
      payload_config =
        \<lparr>numberOfVideos = 1,
         config_resolution = P720,
         config_aspectRatio = Some LANDSCAPE,
         config_referenceImages = None,
         config_lastFrame = None\<rparr>,
      payload_prompt = Some ''sunrise over a valley'',
      payload_image = None,
      payload_video = None\<rparr>"

definition exampleCalls :: "call list" where
  "exampleCalls =
     [GenerateVideos examplePayload,
      GetVideosOperation (exampleOperation False None),
      GetVideosOperation (exampleOperation False None)]"

definition exampleReply :: "string option \<Rightarrow> error + GenerateContentResponse" where
  "exampleReply reply = Inr \<lparr>response_text = reply\<rparr>"

section \<open>Facts about the request assembly\<close>

text \<open>The loop keeps what it was given and adds the next images up to three entries.\<close>

lemma pushReferences_take:
  "pushReferences acc imgs = acc @ take (3 - length acc) (map toReference imgs)"
  by (induction imgs arbitrary: acc) (auto simp: take_Cons')

lemma referenceImagesPayload_take:
  "referenceImagesPayload params = take 3 (map toReference (candidateImages params))"
  by (simp add: referenceImagesPayload_def candidateImages_def pushReferences_take
      split: option.splits)

text \<open>
  The assembly in one expression: the only failure is the extend branch without a
  handle, and every field of the payload is read off the request directly.
\<close>

lemma generateVideoPayload_closed_form:
  "generateVideoPayload params =
     (if mode params = EXTEND_VIDEO \<and> inputVideoObject params = None
      then Inl (Error ''An input video object is required to extend a video.'')
      else Inr \<lparr>payload_model = model params,
                payload_config =
                  \<lparr>numberOfVideos = 1,
                   config_resolution = resolution params,
                   config_aspectRatio =
                     (if mode params = EXTEND_VIDEO then None else Some (aspectRatio params)),
                   config_referenceImages =
                     (if referenceImagesPayload params = [] then None
                      else Some (referenceImagesPayload params)),
                   config_lastFrame =
                     (if mode params = FRAMES_TO_VIDEO
                      then map_option toImage
                             (if isLooping params = Some True then startFrame params
                              else endFrame params)
                      else None)\<rparr>,
                payload_prompt = (if prompt params = [] then None else Some (prompt params)),
                payload_image =
                  (if mode params = FRAMES_TO_VIDEO then map_option toImage (startFrame params)
                   else None),
                payload_video =
                  (if mode params = EXTEND_VIDEO then inputVideoObject params else None)\<rparr>)"
  by (simp add: generateVideoPayload_def Let_def split: option.splits)

lemma exampleParams_payload: "generateVideoPayload exampleParams = Inr examplePayload"
  by (simp add: generateVideoPayload_closed_form exampleParams_def examplePayload_def
      referenceImagesPayload_def)

section \<open>Facts about polling and retrieval\<close>

text \<open>
  When the loop returns an operation, that operation is done; and the loop only ever
  adds polls to the calls.
\<close>

lemma pollOperation_result:
  assumes run: "pollOperation rt calls operation = Some out"
  shows "(\<forall>operation'. fst out = Inr operation' \<longrightarrow> operation_done operation') \<and>
         (\<exists>polled. snd out = calls @ map GetVideosOperation polled)"
proof (rule pollOperation.raw_induct
    [where P = "\<lambda>rt calls operation out.
        (\<forall>operation'. fst out = Inr operation' \<longrightarrow> operation_done operation') \<and>
        (\<exists>polled. snd out = calls @ map GetVideosOperation polled)", OF _ run])
  fix poll :: "runtime \<Rightarrow> call list \<Rightarrow> GenerateVideosOperation
                 \<Rightarrow> ((error + GenerateVideosOperation) \<times> call list) option"
    and rt calls operation out
  assume ih: "\<And>rt calls operation out. poll rt calls operation = Some out \<Longrightarrow>
        (\<forall>operation'. fst out = Inr operation' \<longrightarrow> operation_done operation') \<and>
        (\<exists>polled. snd out = calls @ map GetVideosOperation polled)"
    and unfolded: "(if operation_done operation then Some (Inr operation, calls)
        else case getVideosOperation rt calls operation of
               Inl e \<Rightarrow> Some (Inl e, calls @ [GetVideosOperation operation])
             | Inr operation' \<Rightarrow> poll rt (calls @ [GetVideosOperation operation]) operation')
        = Some out"
  show "(\<forall>operation'. fst out = Inr operation' \<longrightarrow> operation_done operation') \<and>
        (\<exists>polled. snd out = calls @ map GetVideosOperation polled)"
  proof (cases "operation_done operation")
    case True
    with unfolded have "out = (Inr operation, calls)" by simp
    with True show ?thesis by simp
  next
    case False
    show ?thesis
    proof (cases "getVideosOperation rt calls operation")
      case (Inl e)
      with False unfolded have "out = (Inl e, calls @ [GetVideosOperation operation])" by simp
      then have "fst out = Inl e" and "snd out = calls @ map GetVideosOperation [operation]"
        by simp_all
      then show ?thesis by (intro conjI exI[of _ "[operation]"]) simp_all
    next
      case (Inr operation')
      with False unfolded
      have step: "poll rt (calls @ [GetVideosOperation operation]) operation' = Some out" by simp
      from ih[OF step] obtain polled where
        s: "snd out = (calls @ [GetVideosOperation operation]) @ map GetVideosOperation polled"
        by blast
      then have "snd out = calls @ map GetVideosOperation (operation # polled)" by simp
      with ih[OF step] show ?thesis by blast
    qed
  qed
qed

lemma retrieveVideo_none:
  "producedVideos operation = [] \<Longrightarrow>
   retrieveVideo rt calls operation = (Inl (Error ''No videos generated.''), calls)"
  by (auto simp: producedVideos_def retrieveVideo_def split: option.splits list.splits)

lemma retrieveVideo_no_video:
  assumes "producedVideos operation = firstVideo # others"
      and "video firstVideo = None"
  shows "retrieveVideo rt calls operation = (Inl TypeError, calls)"
  using assms
  by (auto simp: producedVideos_def retrieveVideo_def split: option.splits list.splits)

lemma retrieveVideo_not_decoded:
  assumes "producedVideos operation = firstVideo # others"
      and "video firstVideo = Some videoObject"
      and "decodeURIComponent rt (stringOf (uri videoObject)) = None"
  shows "retrieveVideo rt calls operation = (Inl URIError, calls)"
  using assms
  by (auto simp: producedVideos_def retrieveVideo_def split: option.splits list.splits)

lemma retrieveVideo_fetches_first:
  assumes "producedVideos operation = firstVideo # others"
      and "video firstVideo = Some videoObject"
      and "decodeURIComponent rt (stringOf (uri videoObject)) = Some url"
  shows "snd (retrieveVideo rt calls operation)
           = calls @ [Fetch (url @ ''&key='' @ stringOf (API_KEY rt))]"
  using assms
  by (auto simp: producedVideos_def retrieveVideo_def Let_def
      split: option.splits list.splits sum.splits)

lemma retrieveVideo_fetch_failed:
  assumes "producedVideos operation = firstVideo # others"
      and "video firstVideo = Some videoObject"
      and "decodeURIComponent rt (stringOf (uri videoObject)) = Some url"
      and "fetch rt calls (url @ ''&key='' @ stringOf (API_KEY rt)) = Inr res"
      and "\<not> ok res"
  shows "retrieveVideo rt calls operation =
           (Inl (Error (''Failed to fetch video: '' @ toString (status res))),
            calls @ [Fetch (url @ ''&key='' @ stringOf (API_KEY rt))])"
  using assms
  by (auto simp: producedVideos_def retrieveVideo_def Let_def split: option.splits list.splits)

lemma retrieveVideo_calls:
  "snd (retrieveVideo rt calls operation) = calls \<or>
   (\<exists>request. snd (retrieveVideo rt calls operation) = calls @ [Fetch request])"
  by (auto simp: retrieveVideo_def Let_def split: option.splits list.splits sum.splits)

text \<open>
  Without a client nothing else happens. With one, the payload assembled is the
  payload sent: a run that returns has made exactly one submission, of that payload,
  before any poll and before the one retrieval.
\<close>

lemma generateVideo_no_client:
  "newGoogleGenAI rt (API_KEY rt) = Some e \<Longrightarrow>
   generateVideo rt calls params = Some (Inl e, calls)"
  by (simp add: generateVideo_def)

lemma generateVideo_with_client:
  "newGoogleGenAI rt (API_KEY rt) = None \<Longrightarrow>
   generateVideo rt calls params =
     (case generateVideoPayload params of
        Inl e \<Rightarrow> Some (Inl e, calls)
      | Inr payload \<Rightarrow>
          (case generateVideos rt calls payload of
             Inl e \<Rightarrow> Some (Inl e, calls @ [GenerateVideos payload])
           | Inr operation \<Rightarrow>
               (case pollOperation rt (calls @ [GenerateVideos payload]) operation of
                  None \<Rightarrow> None
                | Some (Inl e, calls'') \<Rightarrow> Some (Inl e, calls'')
                | Some (Inr operation', calls'') \<Rightarrow>
                    Some (retrieveVideo rt calls'' operation'))))"
  by (cases "generateVideoPayload params") (simp_all add: generateVideo_def Let_def)

lemma generateVideo_calls:
  assumes client: "newGoogleGenAI rt (API_KEY rt) = None"
      and built: "generateVideoPayload params = Inr payload"
      and run: "generateVideo rt calls params = Some (res, calls')"
  shows "\<exists>polled fetched.
           calls' = calls @ GenerateVideos payload # map GetVideosOperation polled @ map Fetch fetched"
proof (cases "generateVideos rt calls payload")
  case (Inl e)
  with client built run have "calls' = calls @ [GenerateVideos payload]"
    by (simp add: generateVideo_with_client)
  then have "calls' = calls @ GenerateVideos payload # map GetVideosOperation [] @ map Fetch []"
    by simp
  then show ?thesis by blast
next
  case (Inr submitted)
  with client built run obtain out where
    polled: "pollOperation rt (calls @ [GenerateVideos payload]) submitted = Some out"
    by (auto simp: generateVideo_with_client split: option.splits)
  from pollOperation_result[OF polled] obtain ops where
    ops: "snd out = (calls @ [GenerateVideos payload]) @ map GetVideosOperation ops"
    by blast
  show ?thesis
  proof (cases "fst out")
    case (Inl e)
    with client built run Inr polled have "calls' = snd out"
      by (cases out) (auto simp: generateVideo_with_client)
    with ops have "calls' = calls @ GenerateVideos payload # map GetVideosOperation ops @ map Fetch []"
      by simp
    then show ?thesis by blast
  next
    case (Inr operation)
    with client built run \<open>generateVideos rt calls payload = Inr submitted\<close> polled
    have c: "calls' = snd (retrieveVideo rt (snd out) operation)"
      by (cases out) (auto simp: generateVideo_with_client)
    from retrieveVideo_calls[of rt "snd out" operation] show ?thesis
    proof
      assume "snd (retrieveVideo rt (snd out) operation) = snd out"
      with c ops
      have "calls' = calls @ GenerateVideos payload # map GetVideosOperation ops @ map Fetch []"
        by simp
      then show ?thesis by blast
    next
      assume "\<exists>request. snd (retrieveVideo rt (snd out) operation) = snd out @ [Fetch request]"
      then obtain request where
        "snd (retrieveVideo rt (snd out) operation) = snd out @ [Fetch request]" by blast
      with c ops
      have "calls' = calls @ GenerateVideos payload # map GetVideosOperation ops @ map Fetch [request]"
        by simp
      then show ?thesis by blast
    qed
  qed
qed

lemma generateVideo_not_built:
  "newGoogleGenAI rt (API_KEY rt) = None \<Longrightarrow> generateVideoPayload params = Inl e \<Longrightarrow>
   generateVideo rt calls params = Some (Inl e, calls)"
  by (simp add: generateVideo_with_client)

lemma exampleRuntime_client:
  "newGoogleGenAI (exampleRuntime resp res reply) (API_KEY (exampleRuntime resp res reply)) = None"
  by (simp add: exampleRuntime_def)

section \<open>The claims about generateVideo\<close>

text \<open>
  C1, as amended. Whenever generateVideo assembles a payload: the primary image and
  the last frame are absent unless the mode is FramesToVideo, and the video to extend
  is absent unless the mode is ExtendVideo; styleImage and inputVideo never influence
  the payload; outside FramesToVideo the payload does not depend on startFrame,
  endFrame or isLooping, and outside ExtendVideo it does not depend on
  inputVideoObject. The reference-image list (logo, then reference images, capped at
  three) is attached in every mode whenever it is non-empty, not only in
  ReferencesToVideo.
\<close>

theorem payload_projection_by_mode:
  "(generateVideoPayload params = Inr payload \<longrightarrow>
      (mode params \<noteq> FRAMES_TO_VIDEO \<longrightarrow>
         payload_image payload = None \<and> config_lastFrame (payload_config payload) = None) \<and>
      (mode params \<noteq> EXTEND_VIDEO \<longrightarrow> payload_video payload = None) \<and>
      config_referenceImages (payload_config payload) =
        (if referenceImagesPayload params = [] then None
         else Some (referenceImagesPayload params))) \<and>
   generateVideoPayload (params\<lparr>styleImage := anyStyle, inputVideo := anyVideo\<rparr>)
     = generateVideoPayload params \<and>
   (mode params \<noteq> FRAMES_TO_VIDEO \<longrightarrow>
      generateVideoPayload (params\<lparr>startFrame := anyStart, endFrame := anyEnd, isLooping := anyLoop\<rparr>)
        = generateVideoPayload params) \<and>
   (mode params \<noteq> EXTEND_VIDEO \<longrightarrow>
      generateVideoPayload (params\<lparr>inputVideoObject := anyHandle\<rparr>) = generateVideoPayload params)"
  by (auto simp: generateVideoPayload_closed_form referenceImagesPayload_def split: if_splits)

theorem payload_projection_by_mode_witness:
  "generateVideoPayload (exampleParams\<lparr>logoImage := Some (exampleImage ''logo'')\<rparr>)
     = Inr (examplePayload\<lparr>payload_config := (payload_config examplePayload)
              \<lparr>config_referenceImages := Some [toReference (exampleImage ''logo'')]\<rparr>\<rparr>) \<and>
   generateVideoPayload
       (exampleParams\<lparr>logoImage := Some (exampleImage ''logo''),
                       styleImage := Some (exampleImage ''style''),
                       inputVideo := Some (exampleImage ''clip'')\<rparr>)
     = generateVideoPayload (exampleParams\<lparr>logoImage := Some (exampleImage ''logo'')\<rparr>) \<and>
   generateVideoPayload
       (exampleParams\<lparr>logoImage := Some (exampleImage ''logo''),
                       startFrame := Some (exampleImage ''start''),
                       endFrame := Some (exampleImage ''end''),
                       isLooping := Some True\<rparr>)
     = generateVideoPayload (exampleParams\<lparr>logoImage := Some (exampleImage ''logo'')\<rparr>) \<and>
   generateVideoPayload
       (exampleParams\<lparr>logoImage := Some (exampleImage ''logo''),
                       inputVideoObject := Some \<lparr>uri = Some ''https://videos.example/v0''\<rparr>\<rparr>)
     = generateVideoPayload (exampleParams\<lparr>logoImage := Some (exampleImage ''logo'')\<rparr>)"
proof -
  let ?p = "exampleParams\<lparr>logoImage := Some (exampleImage ''logo'')\<rparr>"
  let ?pl = "examplePayload\<lparr>payload_config := (payload_config examplePayload)
              \<lparr>config_referenceImages := Some [toReference (exampleImage ''logo'')]\<rparr>\<rparr>"
  have built: "generateVideoPayload ?p = Inr ?pl"
    by (simp add: generateVideoPayload_closed_form exampleParams_def examplePayload_def
        referenceImagesPayload_def)
  have m: "mode ?p = TEXT_TO_VIDEO" by (simp add: exampleParams_def)
  note inst = payload_projection_by_mode
         [where params = ?p and payload = ?pl
            and anyStyle = "Some (exampleImage ''style'')"
            and anyVideo = "Some (exampleImage ''clip'')"
            and anyStart = "Some (exampleImage ''start'')"
            and anyEnd = "Some (exampleImage ''end'')"
            and anyLoop = "Some True"
            and anyHandle = "Some \<lparr>uri = Some ''https://videos.example/v0''\<rparr>"]
  from inst have style:
    "generateVideoPayload (?p\<lparr>styleImage := Some (exampleImage ''style''),
                             inputVideo := Some (exampleImage ''clip'')\<rparr>)
       = generateVideoPayload ?p"
    by blast
  from inst m have frames:
    "generateVideoPayload (?p\<lparr>startFrame := Some (exampleImage ''start''),
                             endFrame := Some (exampleImage ''end''),
                             isLooping := Some True\<rparr>)
       = generateVideoPayload ?p"
    by simp
  from inst m have handle:
    "generateVideoPayload (?p\<lparr>inputVideoObject := Some \<lparr>uri = Some ''https://videos.example/v0''\<rparr>\<rparr>)
       = generateVideoPayload ?p"
    by simp
  from built style frames handle show ?thesis by simp
qed

text \<open>
  C1 as stated fails: a TextToVideo request that carries a logo is sent with that logo
  as a reference image.
\<close>

theorem logo_sent_in_text_mode:
  "mode (exampleParams\<lparr>logoImage := Some (exampleImage ''logo'')\<rparr>) = TEXT_TO_VIDEO \<and>
   generateVideoPayload (exampleParams\<lparr>logoImage := Some (exampleImage ''logo'')\<rparr>)
     = Inr (examplePayload\<lparr>payload_config := (payload_config examplePayload)
              \<lparr>config_referenceImages :=
                 Some [\<lparr>image = \<lparr>imageBytes = ''logo'', mimeType = ''image/png''\<rparr>,
                        referenceType = ASSET\<rparr>]\<rparr>\<rparr>)"
  by (simp add: generateVideoPayload_closed_form exampleParams_def examplePayload_def
      referenceImagesPayload_def toReference_def toImage_def exampleImage_def)

text \<open>
  C2. A request in mode ExtendVideo without a provider video handle fails, and the
  calls made are exactly those made before: nothing is submitted, polled or fetched.
  The error is the configuration error "An input video object is required to extend a
  video." whenever the client is built; where the client's constructor throws
  (line 79 runs first), it is the constructor's error.
\<close>

theorem extend_without_handle_fails_first:
  assumes "mode params = EXTEND_VIDEO" and "inputVideoObject params = None"
  shows "(\<exists>e. generateVideo rt calls params = Some (Inl e, calls)) \<and>
         (newGoogleGenAI rt (API_KEY rt) = None \<longrightarrow>
            generateVideo rt calls params =
              Some (Inl (Error ''An input video object is required to extend a video.''), calls)) \<and>
         (newGoogleGenAI rt (API_KEY rt) = Some thrown \<longrightarrow>
            generateVideo rt calls params = Some (Inl thrown, calls))"
proof (cases "newGoogleGenAI rt (API_KEY rt)")
  case None
  with assms have "generateVideo rt calls params =
      Some (Inl (Error ''An input video object is required to extend a video.''), calls)"
    by (simp add: generateVideo_with_client generateVideoPayload_closed_form)
  with None show ?thesis by simp
next
  case (Some e)
  then have "generateVideo rt calls params = Some (Inl e, calls)"
    by (rule generateVideo_no_client)
  with Some show ?thesis by simp
qed

theorem extend_without_handle_fails_first_witness:
  "mode (exampleParams\<lparr>mode := EXTEND_VIDEO\<rparr>) = EXTEND_VIDEO \<and>
   inputVideoObject (exampleParams\<lparr>mode := EXTEND_VIDEO\<rparr>) = None \<and>
   generateVideo (exampleRuntime exampleVideos (exampleResponse 200) (exampleReply None)) []
       (exampleParams\<lparr>mode := EXTEND_VIDEO\<rparr>)
     = Some (Inl (Error ''An input video object is required to extend a video.''), []) \<and>
   generateVideo
       ((exampleRuntime exampleVideos (exampleResponse 200) (exampleReply None))\<lparr>API_KEY := None\<rparr>)
       [] (exampleParams\<lparr>mode := EXTEND_VIDEO\<rparr>)
     = Some (Inl (ProviderError ''An API Key must be set when running in a browser''), [])"
proof -
  let ?rt = "exampleRuntime exampleVideos (exampleResponse 200) (exampleReply None)"
  let ?p = "exampleParams\<lparr>mode := EXTEND_VIDEO\<rparr>"
  have m: "mode ?p = EXTEND_VIDEO" by simp
  have h: "inputVideoObject ?p = None"
    by (simp add: exampleParams_def)
  have keyless: "newGoogleGenAI (?rt\<lparr>API_KEY := None\<rparr>) (API_KEY (?rt\<lparr>API_KEY := None\<rparr>))
      = Some (ProviderError ''An API Key must be set when running in a browser'')"
    by (simp add: exampleRuntime_def)
  from extend_without_handle_fails_first[OF m h, of ?rt "[]"] exampleRuntime_client
  have a: "generateVideo ?rt [] ?p
      = Some (Inl (Error ''An input video object is required to extend a video.''), [])"
    by blast
  from extend_without_handle_fails_first
         [OF m h, where rt = "?rt\<lparr>API_KEY := None\<rparr>" and calls = "[]"
            and thrown = "ProviderError ''An API Key must be set when running in a browser''"]
       keyless
  have b: "generateVideo (?rt\<lparr>API_KEY := None\<rparr>) [] ?p
      = Some (Inl (ProviderError ''An API Key must be set when running in a browser''), [])"
    by blast
  from m h a b show ?thesis by blast
qed

text \<open>
  C3, as amended. The payload has no prompt field exactly when the request's prompt is
  the empty string; every other prompt, a whitespace-only one included, is sent as it is.
\<close>

theorem prompt_sent_unless_empty:
  assumes "generateVideoPayload params = Inr payload"
  shows "payload_prompt payload = (if prompt params = [] then None else Some (prompt params))"
  using assms by (auto simp: generateVideoPayload_closed_form split: if_splits)

theorem prompt_sent_unless_empty_witness:
  "generateVideoPayload (exampleParams\<lparr>prompt := ''''\<rparr>)
     = Inr (examplePayload\<lparr>payload_prompt := None\<rparr>) \<and>
   payload_prompt (examplePayload\<lparr>payload_prompt := None\<rparr>) = None \<and>
   payload_prompt examplePayload = Some ''sunrise over a valley''"
proof -
  have e: "generateVideoPayload (exampleParams\<lparr>prompt := ''''\<rparr>)
     = Inr (examplePayload\<lparr>payload_prompt := None\<rparr>)"
    by (simp add: generateVideoPayload_closed_form exampleParams_def examplePayload_def
        referenceImagesPayload_def)
  from prompt_sent_unless_empty[OF e] prompt_sent_unless_empty[OF exampleParams_payload] e
  show ?thesis by (simp add: exampleParams_def)
qed

text \<open>
  C3 as stated fails: a prompt of two spaces is whitespace-only, and it is sent.
\<close>

theorem whitespace_prompt_is_sent:
  "generateVideoPayload (exampleParams\<lparr>prompt := ''  ''\<rparr>)
     = Inr (examplePayload\<lparr>payload_prompt := Some ''  ''\<rparr>)"
  by (simp add: generateVideoPayload_closed_form exampleParams_def examplePayload_def
      referenceImagesPayload_def)

text \<open>
  C4. In mode FramesToVideo with isLooping set, the request is always assembled, the
  last frame sent is the start frame (it is the primary image sent), and setting
  endFrame to anything else gives the same payload.
\<close>

theorem looping_last_frame_is_start_frame:
  assumes "mode params = FRAMES_TO_VIDEO" and "isLooping params = Some True"
  shows "\<exists>payload. generateVideoPayload params = Inr payload \<and>
           config_lastFrame (payload_config payload) = map_option toImage (startFrame params) \<and>
           config_lastFrame (payload_config payload) = payload_image payload \<and>
           generateVideoPayload (params\<lparr>endFrame := anyEnd\<rparr>) = Inr payload"
  using assms by (simp add: generateVideoPayload_closed_form referenceImagesPayload_def)

theorem looping_last_frame_is_start_frame_witness:
  "\<exists>payload.
     generateVideoPayload
         (exampleParams\<lparr>mode := FRAMES_TO_VIDEO, startFrame := Some (exampleImage ''start''),
                         isLooping := Some True, endFrame := Some (exampleImage ''end'')\<rparr>)
       = Inr payload \<and>
     config_lastFrame (payload_config payload) = Some (toImage (exampleImage ''start'')) \<and>
     payload_image payload = Some (toImage (exampleImage ''start'')) \<and>
     generateVideoPayload
         (exampleParams\<lparr>mode := FRAMES_TO_VIDEO, startFrame := Some (exampleImage ''start''),
                         isLooping := Some True, endFrame := None\<rparr>)
       = Inr payload"
proof -
  let ?p = "exampleParams\<lparr>mode := FRAMES_TO_VIDEO, startFrame := Some (exampleImage ''start''),
                         isLooping := Some True, endFrame := Some (exampleImage ''end'')\<rparr>"
  have m: "mode ?p = FRAMES_TO_VIDEO" by simp
  have l: "isLooping ?p = Some True" by simp
  from looping_last_frame_is_start_frame[OF m l, of None] obtain payload where
    built: "generateVideoPayload ?p = Inr payload" and
    last: "config_lastFrame (payload_config payload) = map_option toImage (startFrame ?p)" and
    same: "config_lastFrame (payload_config payload) = payload_image payload" and
    other: "generateVideoPayload (?p\<lparr>endFrame := None\<rparr>) = Inr payload"
    by blast
  from last have last': "config_lastFrame (payload_config payload) = Some (toImage (exampleImage ''start''))"
    by simp
  with same have first: "payload_image payload = Some (toImage (exampleImage ''start''))"
    by simp
  from other have other': "generateVideoPayload
         (exampleParams\<lparr>mode := FRAMES_TO_VIDEO, startFrame := Some (exampleImage ''start''),
                         isLooping := Some True, endFrame := None\<rparr>)
       = Inr payload"
    by simp
  from built last' first other' show ?thesis by blast
qed

text \<open>
  C5. The reference-image list is the first three of the candidate images (the logo,
  when present, then the reference images in their order), so it never has more than
  three entries; with a logo and three or more reference images it is the logo and
  the first two of them, three entries. Dropping the rest raises nothing: the request
  is assembled unless it is an ExtendVideo request without a handle. The list is in the
  config exactly when it is non-empty.
\<close>

theorem reference_list_capped:
  "referenceImagesPayload params = take 3 (map toReference (candidateImages params)) \<and>
   length (referenceImagesPayload params) \<le> 3 \<and>
   (logoImage params = Some logo \<and> referenceImages params = Some imgs \<and>
        1 + length imgs > 3 \<longrightarrow>
        referenceImagesPayload params = toReference logo # map toReference (take 2 imgs) \<and>
        length (referenceImagesPayload params) = 3) \<and>
   (mode params \<noteq> EXTEND_VIDEO \<or> inputVideoObject params \<noteq> None \<longrightarrow>
      (\<exists>sent. generateVideoPayload params = Inr sent)) \<and>
   (generateVideoPayload params = Inr payload \<longrightarrow>
      config_referenceImages (payload_config payload) =
        (if referenceImagesPayload params = [] then None
         else Some (referenceImagesPayload params)))"
proof -
  have a: "referenceImagesPayload params = take 3 (map toReference (candidateImages params))"
    by (rule referenceImagesPayload_take)
  have b: "length (referenceImagesPayload params) \<le> 3"
    by (simp add: a)
  have c: "referenceImagesPayload params = toReference logo # map toReference (take 2 imgs) \<and>
           length (referenceImagesPayload params) = 3"
    if "logoImage params = Some logo" "referenceImages params = Some imgs" "1 + length imgs > 3"
    using that by (simp add: a candidateImages_def take_map numeral_3_eq_3 numeral_2_eq_2)
  have d: "\<exists>sent. generateVideoPayload params = Inr sent"
    if "mode params \<noteq> EXTEND_VIDEO \<or> inputVideoObject params \<noteq> None"
    using that by (auto simp: generateVideoPayload_closed_form)
  have e: "config_referenceImages (payload_config payload) =
        (if referenceImagesPayload params = [] then None
         else Some (referenceImagesPayload params))"
    if "generateVideoPayload params = Inr payload"
    using that by (auto simp: generateVideoPayload_closed_form split: if_splits)
  from a b c d e show ?thesis by blast
qed

theorem reference_list_capped_witness:
  "referenceImagesPayload
       (exampleParams\<lparr>mode := REFERENCES_TO_VIDEO, logoImage := Some (exampleImage ''logo''),
          referenceImages := Some [exampleImage ''a'', exampleImage ''b'', exampleImage ''c'']\<rparr>)
     = [toReference (exampleImage ''logo''), toReference (exampleImage ''a''),
        toReference (exampleImage ''b'')] \<and>
   generateVideoPayload
       (exampleParams\<lparr>mode := REFERENCES_TO_VIDEO, logoImage := Some (exampleImage ''logo''),
          referenceImages := Some [exampleImage ''a'', exampleImage ''b'', exampleImage ''c'']\<rparr>)
     = Inr (examplePayload\<lparr>payload_config := (payload_config examplePayload)
              \<lparr>config_referenceImages :=
                 Some [toReference (exampleImage ''logo''), toReference (exampleImage ''a''),
                       toReference (exampleImage ''b'')]\<rparr>\<rparr>)"
proof -
  let ?p = "exampleParams\<lparr>mode := REFERENCES_TO_VIDEO, logoImage := Some (exampleImage ''logo''),
          referenceImages := Some [exampleImage ''a'', exampleImage ''b'', exampleImage ''c'']\<rparr>"
  let ?refs = "[toReference (exampleImage ''logo''), toReference (exampleImage ''a''),
        toReference (exampleImage ''b'')]"
  let ?pl = "examplePayload\<lparr>payload_config := (payload_config examplePayload)
              \<lparr>config_referenceImages := Some ?refs\<rparr>\<rparr>"
  have l: "logoImage ?p = Some (exampleImage ''logo'')" by simp
  have r: "referenceImages ?p = Some [exampleImage ''a'', exampleImage ''b'', exampleImage ''c'']"
    by simp
  have n: "1 + length [exampleImage ''a'', exampleImage ''b'', exampleImage ''c''] > 3" by simp
  have built: "generateVideoPayload ?p = Inr ?pl"
    by (simp add: generateVideoPayload_closed_form exampleParams_def examplePayload_def
        referenceImagesPayload_def)
  from reference_list_capped
         [where params = ?p and logo = "exampleImage ''logo''"
            and imgs = "[exampleImage ''a'', exampleImage ''b'', exampleImage ''c'']"
            and payload = ?pl]
       l r n
  have "referenceImagesPayload ?p
      = toReference (exampleImage ''logo'')
        # map toReference (take 2 [exampleImage ''a'', exampleImage ''b'', exampleImage ''c''])"
    by blast
  then have refs: "referenceImagesPayload ?p = ?refs"
    by (simp add: numeral_2_eq_2)
  from refs built show ?thesis by blast
qed

text \<open>
  C8, as amended. Suppose the client is built, the request is assembled and submitted,
  and the polling ends with an operation. Then that operation is done. If it has
  produced no video (no response, no list or an empty list), generateVideo fails with
  the error "No videos generated." and makes no further call. Otherwise it looks at the
  first produced entry only: if the entry holds no video it fails with a TypeError, and
  if the video's locator does not decode it fails with a URIError, in both cases
  without fetching anything; if the locator decodes, the one further call is the fetch
  of the decoded locator with the key appended, and if that fetch answers with a
  non-success status, generateVideo fails with the error "Failed to fetch video:"
  followed by that status.
\<close>

theorem generateVideo_completion_errors:
  assumes "newGoogleGenAI rt (API_KEY rt) = None"
      and "generateVideoPayload params = Inr payload"
      and "generateVideos rt calls payload = Inr submitted"
      and "pollOperation rt (calls @ [GenerateVideos payload]) submitted
             = Some (Inr operation, calls')"
  shows "operation_done operation \<and>
         (producedVideos operation = [] \<longrightarrow>
            generateVideo rt calls params
              = Some (Inl (Error ''No videos generated.''), calls')) \<and>
         (producedVideos operation = firstVideo # others \<longrightarrow>
            (video firstVideo = None \<longrightarrow>
               generateVideo rt calls params = Some (Inl TypeError, calls')) \<and>
            (video firstVideo = Some videoObject \<longrightarrow>
               (decodeURIComponent rt (stringOf (uri videoObject)) = None \<longrightarrow>
                  generateVideo rt calls params = Some (Inl URIError, calls')) \<and>
               (decodeURIComponent rt (stringOf (uri videoObject)) = Some url \<longrightarrow>
                  (\<exists>outcome. generateVideo rt calls params
                     = Some (outcome, calls' @ [Fetch (url @ ''&key='' @ stringOf (API_KEY rt))])) \<and>
                  (fetch rt calls' (url @ ''&key='' @ stringOf (API_KEY rt)) = Inr res \<and>
                   \<not> ok res \<longrightarrow>
                     generateVideo rt calls params
                       = Some (Inl (Error (''Failed to fetch video: '' @ toString (status res))),
                               calls' @ [Fetch (url @ ''&key='' @ stringOf (API_KEY rt))])))))"
proof -
  have run: "generateVideo rt calls params = Some (retrieveVideo rt calls' operation)"
    using assms by (simp add: generateVideo_with_client)
  have finished: "operation_done operation"
    using pollOperation_result[OF assms(4)] by simp
  have none: "generateVideo rt calls params = Some (Inl (Error ''No videos generated.''), calls')"
    if "producedVideos operation = []"
    using that run by (simp add: retrieveVideo_none)
  have missing: "generateVideo rt calls params = Some (Inl TypeError, calls')"
    if "producedVideos operation = firstVideo # others" and "video firstVideo = None"
    using that run by (simp add: retrieveVideo_no_video)
  have malformed: "generateVideo rt calls params = Some (Inl URIError, calls')"
    if "producedVideos operation = firstVideo # others"
      and "video firstVideo = Some videoObject"
      and "decodeURIComponent rt (stringOf (uri videoObject)) = None"
    using that run by (simp add: retrieveVideo_not_decoded)
  have fetched: "\<exists>outcome. generateVideo rt calls params
               = Some (outcome, calls' @ [Fetch (url @ ''&key='' @ stringOf (API_KEY rt))])"
    if "producedVideos operation = firstVideo # others"
      and "video firstVideo = Some videoObject"
      and "decodeURIComponent rt (stringOf (uri videoObject)) = Some url"
    using retrieveVideo_fetches_first[OF that, of calls'] run
    by (cases "retrieveVideo rt calls' operation") simp
  have failed: "generateVideo rt calls params
                 = Some (Inl (Error (''Failed to fetch video: '' @ toString (status res))),
                         calls' @ [Fetch (url @ ''&key='' @ stringOf (API_KEY rt))])"
    if "producedVideos operation = firstVideo # others"
      and "video firstVideo = Some videoObject"
      and "decodeURIComponent rt (stringOf (uri videoObject)) = Some url"
      and "fetch rt calls' (url @ ''&key='' @ stringOf (API_KEY rt)) = Inr res" and "\<not> ok res"
    using that run by (simp add: retrieveVideo_fetch_failed)
  from finished none missing malformed fetched failed show ?thesis by blast
qed

theorem generateVideo_completion_errors_witness:
  "generateVideo (exampleRuntime (Some \<lparr>generatedVideos = Some []\<rparr>) (exampleResponse 200)
       (exampleReply None)) [] exampleParams
     = Some (Inl (Error ''No videos generated.''), exampleCalls) \<and>
   generateVideo (exampleRuntime exampleVideos (exampleResponse 403) (exampleReply None)) []
       exampleParams
     = Some (Inl (Error ''Failed to fetch video: 403''),
             exampleCalls @ [Fetch ''https://videos.example/v1?alt=media&key=secret'']) \<and>
   generateVideo (exampleRuntime (exampleProduced None) (exampleResponse 403) (exampleReply None))
       [] exampleParams
     = Some (Inl TypeError, exampleCalls)"
proof -
  let ?rt0 = "exampleRuntime (Some \<lparr>generatedVideos = Some []\<rparr>) (exampleResponse 200)
       (exampleReply None)"
  let ?rt1 = "exampleRuntime exampleVideos (exampleResponse 403) (exampleReply None)"
  let ?rt2 = "exampleRuntime (exampleProduced None) (exampleResponse 403) (exampleReply None)"
  let ?vo = "\<lparr>uri = Some ''https://videos.example/v1?alt=media''\<rparr>"
  let ?v = "\<lparr>video = Some ?vo\<rparr>"
  have s0: "generateVideos ?rt0 [] examplePayload = Inr (exampleOperation False None)"
    by (simp add: exampleRuntime_def)
  have l0: "pollOperation ?rt0 ([] @ [GenerateVideos examplePayload]) (exampleOperation False None)
      = Some (Inr (exampleOperation True (Some \<lparr>generatedVideos = Some []\<rparr>)), exampleCalls)"
    by (simp add: pollOperation.simps exampleRuntime_def exampleOperation_def exampleCalls_def)
  have e0: "producedVideos (exampleOperation True (Some \<lparr>generatedVideos = Some []\<rparr>)) = []"
    by (simp add: producedVideos_def exampleOperation_def)
  have s1: "generateVideos ?rt1 [] examplePayload = Inr (exampleOperation False None)"
    by (simp add: exampleRuntime_def)
  have l1: "pollOperation ?rt1 ([] @ [GenerateVideos examplePayload]) (exampleOperation False None)
      = Some (Inr (exampleOperation True exampleVideos), exampleCalls)"
    by (simp add: pollOperation.simps exampleRuntime_def exampleOperation_def exampleCalls_def)
  have e1: "producedVideos (exampleOperation True exampleVideos) = ?v # []"
    by (simp add: producedVideos_def exampleOperation_def exampleVideos_def)
  have v1: "video ?v = Some ?vo" by simp
  have d1: "decodeURIComponent ?rt1 (stringOf (uri ?vo)) = Some ''https://videos.example/v1?alt=media''"
    by (simp add: exampleRuntime_def stringOf_def)
  have f1: "fetch ?rt1 exampleCalls
              (''https://videos.example/v1?alt=media'' @ ''&key='' @ stringOf (API_KEY ?rt1))
      = Inr (exampleResponse 403)"
    by (simp add: exampleRuntime_def)
  have n1: "\<not> ok (exampleResponse 403)"
    by (simp add: exampleResponse_def)
  have t1: "toString (status (exampleResponse 403)) = ''403''"
    by code_simp
  have k1: "stringOf (API_KEY ?rt1) = ''secret''"
    by (simp add: exampleRuntime_def stringOf_def)
  have s2: "generateVideos ?rt2 [] examplePayload = Inr (exampleOperation False None)"
    by (simp add: exampleRuntime_def)
  have l2: "pollOperation ?rt2 ([] @ [GenerateVideos examplePayload]) (exampleOperation False None)
      = Some (Inr (exampleOperation True (exampleProduced None)), exampleCalls)"
    by (simp add: pollOperation.simps exampleRuntime_def exampleOperation_def exampleCalls_def)
  have e2: "producedVideos (exampleOperation True (exampleProduced None)) = \<lparr>video = None\<rparr> # []"
    by (simp add: producedVideos_def exampleOperation_def exampleProduced_def)
  have v2: "video \<lparr>video = None\<rparr> = None" by simp
  from generateVideo_completion_errors[OF exampleRuntime_client exampleParams_payload s0 l0] e0
  have a: "generateVideo ?rt0 [] exampleParams
      = Some (Inl (Error ''No videos generated.''), exampleCalls)"
    by blast
  from generateVideo_completion_errors
         [OF exampleRuntime_client exampleParams_payload s1 l1,
          where firstVideo = ?v and others = "[]" and videoObject = ?vo
            and url = "''https://videos.example/v1?alt=media''"
            and res = "exampleResponse 403"]
       e1 v1 d1 f1 n1
  have "generateVideo ?rt1 [] exampleParams
     = Some (Inl (Error (''Failed to fetch video: '' @ toString (status (exampleResponse 403)))),
             exampleCalls @ [Fetch (''https://videos.example/v1?alt=media'' @ ''&key=''
                                    @ stringOf (API_KEY ?rt1))])"
    by blast
  then have b: "generateVideo ?rt1 [] exampleParams
     = Some (Inl (Error ''Failed to fetch video: 403''),
             exampleCalls @ [Fetch ''https://videos.example/v1?alt=media&key=secret''])"
    by (simp add: t1 k1)
  from generateVideo_completion_errors
         [OF exampleRuntime_client exampleParams_payload s2 l2,
          where firstVideo = "\<lparr>video = None\<rparr>" and others = "[]"]
       e2 v2
  have c: "generateVideo ?rt2 [] exampleParams = Some (Inl TypeError, exampleCalls)"
    by blast
  from a b c show ?thesis by blast
qed

text \<open>
  C8 as stated fails: the operation is done and has produced a video, the fetch would
  answer 403, but the video's locator is a lone percent sign, which does not decode.
  generateVideo fails with a URIError, and the calls made are the submission and the
  two polls: nothing is fetched.
\<close>

theorem undecodable_locator_is_not_fetched:
  "generateVideo
       (exampleRuntime (exampleProduced (Some \<lparr>uri = Some ''%''\<rparr>)) (exampleResponse 403)
          (exampleReply None))
       [] exampleParams
     = Some (Inl URIError,
             [GenerateVideos examplePayload,
              GetVideosOperation (exampleOperation False None),
              GetVideosOperation (exampleOperation False None)])"
  by (simp add: generateVideo_def exampleParams_payload pollOperation.simps retrieveVideo_def
      exampleRuntime_def exampleOperation_def exampleProduced_def stringOf_def)

text \<open>
  C9. The config of every assembled payload has numberOfVideos = 1 and the requested
  resolution; it has the requested aspectRatio exactly when the mode is not
  ExtendVideo, and no aspectRatio at all exactly when it is.
\<close>

theorem config_fixed_fields:
  assumes "generateVideoPayload params = Inr payload"
  shows "numberOfVideos (payload_config payload) = 1 \<and>
         config_resolution (payload_config payload) = resolution params \<and>
         (config_aspectRatio (payload_config payload) = Some (aspectRatio params))
           = (mode params \<noteq> EXTEND_VIDEO) \<and>
         (config_aspectRatio (payload_config payload) = None) = (mode params = EXTEND_VIDEO)"
  using assms by (auto simp: generateVideoPayload_closed_form split: if_splits)

theorem config_fixed_fields_witness:
  "generateVideoPayload exampleParams = Inr examplePayload \<and>
   numberOfVideos (payload_config examplePayload) = 1 \<and>
   config_resolution (payload_config examplePayload) = P720 \<and>
   config_aspectRatio (payload_config examplePayload) = Some LANDSCAPE \<and>
   generateVideoPayload
       (exampleParams\<lparr>mode := EXTEND_VIDEO,
                       inputVideoObject := Some \<lparr>uri = Some ''https://videos.example/v0''\<rparr>\<rparr>)
     = Inr (examplePayload
              \<lparr>payload_config := (payload_config examplePayload)\<lparr>config_aspectRatio := None\<rparr>,
               payload_video := Some \<lparr>uri = Some ''https://videos.example/v0''\<rparr>\<rparr>)"
proof -
  let ?p = "exampleParams\<lparr>mode := EXTEND_VIDEO,
                       inputVideoObject := Some \<lparr>uri = Some ''https://videos.example/v0''\<rparr>\<rparr>"
  let ?pl = "examplePayload
              \<lparr>payload_config := (payload_config examplePayload)\<lparr>config_aspectRatio := None\<rparr>,
               payload_video := Some \<lparr>uri = Some ''https://videos.example/v0''\<rparr>\<rparr>"
  have built: "generateVideoPayload ?p = Inr ?pl"
    by (simp add: generateVideoPayload_closed_form exampleParams_def examplePayload_def
        referenceImagesPayload_def)
  from config_fixed_fields[OF exampleParams_payload]
  have "numberOfVideos (payload_config examplePayload) = 1 \<and>
        config_resolution (payload_config examplePayload) = P720 \<and>
        config_aspectRatio (payload_config examplePayload) = Some LANDSCAPE"
    by (simp add: exampleParams_def)
  with config_fixed_fields[OF built] exampleParams_payload built show ?thesis by blast
qed

text \<open>
  C10. In mode FramesToVideo with isLooping set and no start frame, the request is
  assembled and its payload has neither a primary image nor a last frame, whatever
  endFrame holds.
\<close>

theorem looping_without_start_frame_sends_no_frame:
  assumes "mode params = FRAMES_TO_VIDEO" and "isLooping params = Some True"
      and "startFrame params = None"
  shows "\<exists>payload. generateVideoPayload params = Inr payload \<and>
           payload_image payload = None \<and> config_lastFrame (payload_config payload) = None"
  using assms by (simp add: generateVideoPayload_closed_form)

theorem looping_without_start_frame_sends_no_frame_witness:
  "endFrame (exampleParams\<lparr>mode := FRAMES_TO_VIDEO, isLooping := Some True,
                           endFrame := Some (exampleImage ''end'')\<rparr>)
     = Some (exampleImage ''end'') \<and>
   (\<exists>payload.
      generateVideoPayload
          (exampleParams\<lparr>mode := FRAMES_TO_VIDEO, isLooping := Some True,
                          endFrame := Some (exampleImage ''end'')\<rparr>)
        = Inr payload \<and>
      payload_image payload = None \<and> config_lastFrame (payload_config payload) = None)"
proof -
  let ?p = "exampleParams\<lparr>mode := FRAMES_TO_VIDEO, isLooping := Some True,
                           endFrame := Some (exampleImage ''end'')\<rparr>"
  have m: "mode ?p = FRAMES_TO_VIDEO" by simp
  have l: "isLooping ?p = Some True" by simp
  have s: "startFrame ?p = None" by (simp add: exampleParams_def)
  have e: "endFrame ?p = Some (exampleImage ''end'')" by simp
  from looping_without_start_frame_sends_no_frame[OF m l s] e show ?thesis by blast
qed

section \<open>The claims about askCatalogAssistant\<close>

text \<open>
  C6, as amended. With the client built: when the provider resolves,
  askCatalogAssistant returns the reply's text as it is, the absent text included (it
  raises nothing of its own, and the caller substitutes a fallback message); when the
  provider rejects (transport or authentication failure), it fails with the provider's
  error. Where the client's constructor throws, it fails with the constructor's error
  and sends nothing.
\<close>

theorem reply_text_returned_as_is:
  "(newGoogleGenAI rt (API_KEY rt) = None \<and>
    sendMessage rt calls chatSession userPrompt = Inr response \<longrightarrow>
      fst (askCatalogAssistant rt calls userPrompt history) = Inr (response_text response)) \<and>
   (newGoogleGenAI rt (API_KEY rt) = None \<and>
    sendMessage rt calls chatSession userPrompt = Inl e \<longrightarrow>
      fst (askCatalogAssistant rt calls userPrompt history) = Inl e) \<and>
   (newGoogleGenAI rt (API_KEY rt) = Some thrown \<longrightarrow>
      askCatalogAssistant rt calls userPrompt history = (Inl thrown, calls))"
  by (simp add: askCatalogAssistant_def Let_def)

theorem reply_text_returned_as_is_witness:
  "fst (askCatalogAssistant
          (exampleRuntime exampleVideos (exampleResponse 200) (exampleReply (Some ''''))) [] '''' [])
     = Inr (Some '''') \<and>
   fst (askCatalogAssistant
          (exampleRuntime exampleVideos (exampleResponse 200) (Inl (ProviderError ''401''))) []
          ''hola'' [])
     = Inl (ProviderError ''401'') \<and>
   askCatalogAssistant
       ((exampleRuntime exampleVideos (exampleResponse 200) (exampleReply None))\<lparr>API_KEY := None\<rparr>)
       [] ''hola'' []
     = (Inl (ProviderError ''An API Key must be set when running in a browser''), [])"
proof -
  let ?rt0 = "exampleRuntime exampleVideos (exampleResponse 200) (exampleReply (Some ''''))"
  let ?rt1 = "exampleRuntime exampleVideos (exampleResponse 200) (Inl (ProviderError ''401''))"
  let ?rt2 = "(exampleRuntime exampleVideos (exampleResponse 200) (exampleReply None))\<lparr>API_KEY := None\<rparr>"
  have r0: "sendMessage ?rt0 [] chatSession '''' = Inr \<lparr>response_text = Some ''''\<rparr>"
    by (simp add: exampleRuntime_def exampleReply_def)
  have r1: "sendMessage ?rt1 [] chatSession ''hola'' = Inl (ProviderError ''401'')"
    by (simp add: exampleRuntime_def)
  have r2: "newGoogleGenAI ?rt2 (API_KEY ?rt2)
      = Some (ProviderError ''An API Key must be set when running in a browser'')"
    by (simp add: exampleRuntime_def)
  from reply_text_returned_as_is
         [where rt = ?rt0 and calls = "[]" and userPrompt = "''''"
            and response = "\<lparr>response_text = Some ''''\<rparr>" and history = "[]"]
       r0 exampleRuntime_client
  have a: "fst (askCatalogAssistant ?rt0 [] '''' []) = Inr (Some '''')"
    by simp
  from reply_text_returned_as_is
         [where rt = ?rt1 and calls = "[]" and userPrompt = "''hola''"
            and e = "ProviderError ''401''" and history = "[]"]
       r1 exampleRuntime_client
  have b: "fst (askCatalogAssistant ?rt1 [] ''hola'' []) = Inl (ProviderError ''401'')"
    by simp
  from reply_text_returned_as_is
         [where rt = ?rt2 and calls = "[]" and userPrompt = "''hola''" and history = "[]"
            and thrown = "ProviderError ''An API Key must be set when running in a browser''"]
       r2
  have c: "askCatalogAssistant ?rt2 [] ''hola'' []
      = (Inl (ProviderError ''An API Key must be set when running in a browser''), [])"
    by blast
  from a b c show ?thesis by blast
qed

text \<open>
  C6 as stated fails: with the client built and a provider that answers without text,
  askCatalogAssistant returns the absent text and raises nothing.
\<close>

theorem absent_reply_text_is_returned:
  "askCatalogAssistant
       (exampleRuntime exampleVideos (exampleResponse 200) (exampleReply None)) [] ''hola'' []
     = (Inr None, [SendMessage chatSession ''hola''])"
  by (simp add: askCatalogAssistant_def Let_def exampleRuntime_def exampleReply_def)

text \<open>
  C7. The history argument has no influence: for the same runtime, calls so far and
  prompt, any two histories give the same result and the same calls. With the client
  built, the one call made is the prompt sent to a session that holds only the fixed
  model name and the fixed system instruction; where the client's constructor throws,
  no call is made.
\<close>

theorem history_not_sent:
  "askCatalogAssistant rt calls userPrompt h1 = askCatalogAssistant rt calls userPrompt h2 \<and>
   snd (askCatalogAssistant rt calls userPrompt h1)
     = (if newGoogleGenAI rt (API_KEY rt) = None
        then calls @ [SendMessage chatSession userPrompt] else calls)"
  by (simp add: askCatalogAssistant_def Let_def split: sum.splits option.splits)

end
